theory Spec2Isabelle
  imports Complex_Main
begin

section \<open>Portfolio tracker: the StockDashboard component of src/App.js\<close>

text \<open>
  The component keeps a list of holdings in step with a remote store and derives
  portfolio metrics from it. Records that come from the remote store carry a numeric
  \<open>quantity\<close> and \<open>buyPrice\<close> and a \<open>current_price\<close> that is a number or \<open>null\<close>
  (\<open>None\<close>); a number in a record is a finite double, kept as the rational it denotes.
  Values typed into the form are strings.

  The arithmetic of the metrics (\<open>*\<close>, \<open>+\<close>, \<open>/\<close>) is a parameter of the embedding. It
  is read in two ways: exactly, over the rationals, which is the reading under which the
  specification states its sums, and as IEEE 754 double arithmetic, which is what the
  code runs. The state of the component stores the exact reading.
\<close>

subsection \<open>Data\<close>

type_synonym number = rat

text \<open>A value of the edit buffer: a number copied from a holding, or a string typed
  into an input.\<close>

datatype field = Num number | Str string

text \<open>\<open>newStock\<close>: the add form, four strings.\<close>

record form =
  name :: string
  ticker :: string
  quantity :: string
  buyPrice :: string

text \<open>\<open>{ ...newStock, current_price: null }\<close>, the body of the POST.\<close>

record candidate = form +
  current_price :: "number option"

text \<open>A holding. With \<open>'n = number\<close> it is a record of the remote store; with
  \<open>'n = field\<close> it is the edit buffer, a copy of a holding whose fields the inputs
  overwrite with strings. The field \<open>id\<close> of the source is \<open>stock_id\<close> here.\<close>

record 'n holding =
  stock_id :: nat
  name :: string
  ticker :: string
  quantity :: 'n
  buyPrice :: 'n
  current_price :: "number option"

type_synonym stock = "number holding"
type_synonym editbuf = "field holding"

text \<open>\<open>{ ...stock, percentage: ... }\<close>, an entry of the distribution.\<close>

record entry = "number holding" +
  percentage :: number

record metrics =
  totalValue :: number
  topStock :: "stock option"
  portfolioDistribution :: "entry list"

record state =
  stocks :: "stock list"
  newStock :: form
  editStock :: "editbuf option"
  loading :: bool
  error :: "string option"
  portfolioMetrics :: "metrics option"
  isMetricsLoading :: bool

text \<open>The initial values of the \<open>useState\<close> hooks.\<close>

definition emptyForm :: form where
  "emptyForm = \<lparr>form.name = [], form.ticker = [], form.quantity = [], form.buyPrice = []\<rparr>"

definition initialState :: state where
  "initialState =
     \<lparr>stocks = [], newStock = emptyForm, editStock = None, loading = True, error = None,
      portfolioMetrics = Some \<lparr>totalValue = 0, topStock = None, portfolioDistribution = []\<rparr>,
      isMetricsLoading = True\<rparr>"

subsection \<open>IEEE double arithmetic\<close>

text \<open>A JavaScript number is an IEEE 754 double: \<open>NaN\<close>, an infinity, or a finite value,
  kept here as the rational it denotes. The sign of a zero is not kept; every zero that
  arises in the computations below is \<open>+0\<close>.\<close>

datatype double = NaN | PosInf | NegInf | Fin rat

definition pow2 :: "int \<Rightarrow> rat" where
  "pow2 e = (if 0 \<le> e then 2 ^ nat e else 1 / 2 ^ nat (- e))"

text \<open>The binary exponent of a positive magnitude below \<open>2^1024\<close>: the greatest \<open>e\<close> with
  \<open>2^e \<le> a\<close>, and \<open>-1022\<close> for the subnormal range.\<close>

fun expSearch :: "nat \<Rightarrow> int \<Rightarrow> rat \<Rightarrow> int" where
  "expSearch 0 e a = e"
| "expSearch (Suc k) e a = (if a < pow2 (e + 1) then e else expSearch k (e + 1) a)"

definition binexp :: "rat \<Rightarrow> int" where
  "binexp a = expSearch 2045 (- 1022) a"

definition roundHalfEven :: "rat \<Rightarrow> int" where
  "roundHalfEven y =
     (let f = \<lfloor>y\<rfloor>; r = y - of_int f
      in if r < 1 / 2 then f else if 1 / 2 < r then f + 1 else if even f then f else f + 1)"

text \<open>Rounding to the nearest double, ties to even: 53 significant bits, the least
  quantum \<open>2^-1074\<close>, and infinity when the rounded magnitude reaches \<open>2^1024\<close>.\<close>

definition round64 :: "rat \<Rightarrow> double" where
  "round64 x =
     (if x = 0 then Fin 0
      else if pow2 1024 \<le> \<bar>x\<bar> then (if 0 < x then PosInf else NegInf)
      else
        (let q = pow2 (binexp \<bar>x\<bar> - 52);
             y = of_int (roundHalfEven (\<bar>x\<bar> / q)) * q
         in if pow2 1024 \<le> y then (if 0 < x then PosInf else NegInf)
            else Fin (if 0 < x then y else - y)))"

fun dadd :: "double \<Rightarrow> double \<Rightarrow> double" where
  "dadd NaN v = NaN"
| "dadd u NaN = NaN"
| "dadd PosInf NegInf = NaN"
| "dadd NegInf PosInf = NaN"
| "dadd PosInf v = PosInf"
| "dadd NegInf v = NegInf"
| "dadd u PosInf = PosInf"
| "dadd u NegInf = NegInf"
| "dadd (Fin a) (Fin b) = round64 (a + b)"

text \<open>The sign of a product or quotient with an infinite operand.\<close>

definition signed :: "bool \<Rightarrow> double" where
  "signed negative = (if negative then NegInf else PosInf)"

fun dmul :: "double \<Rightarrow> double \<Rightarrow> double" where
  "dmul NaN v = NaN"
| "dmul u NaN = NaN"
| "dmul (Fin a) (Fin b) = round64 (a * b)"
| "dmul (Fin a) PosInf = (if a = 0 then NaN else signed (a < 0))"
| "dmul (Fin a) NegInf = (if a = 0 then NaN else signed (0 < a))"
| "dmul PosInf (Fin b) = (if b = 0 then NaN else signed (b < 0))"
| "dmul NegInf (Fin b) = (if b = 0 then NaN else signed (0 < b))"
| "dmul PosInf PosInf = PosInf"
| "dmul NegInf NegInf = PosInf"
| "dmul PosInf NegInf = NegInf"
| "dmul NegInf PosInf = NegInf"

fun ddiv :: "double \<Rightarrow> double \<Rightarrow> double" where
  "ddiv NaN v = NaN"
| "ddiv u NaN = NaN"
| "ddiv (Fin a) (Fin b) =
     (if b = 0 then (if a = 0 then NaN else signed (a < 0)) else round64 (a / b))"
| "ddiv (Fin a) PosInf = Fin 0"
| "ddiv (Fin a) NegInf = Fin 0"
| "ddiv PosInf (Fin b) = signed (b < 0)"
| "ddiv NegInf (Fin b) = signed (0 \<le> b)"
| "ddiv PosInf PosInf = NaN"
| "ddiv PosInf NegInf = NaN"
| "ddiv NegInf PosInf = NaN"
| "ddiv NegInf NegInf = NaN"

subsection \<open>The arithmetic as a parameter\<close>

text \<open>\<open>lit\<close> reads a number of a record or a literal of the source; the other three are
  \<open>*\<close>, \<open>+\<close> and \<open>/\<close>.\<close>

record 'd arith =
  lit :: "number \<Rightarrow> 'd"
  mulOp :: "'d \<Rightarrow> 'd \<Rightarrow> 'd"
  addOp :: "'d \<Rightarrow> 'd \<Rightarrow> 'd"
  divOp :: "'d \<Rightarrow> 'd \<Rightarrow> 'd"

definition exact :: "number arith" where
  "exact = \<lparr>lit = (\<lambda>x. x), mulOp = (\<lambda>x y. x * y), addOp = (\<lambda>x y. x + y),
            divOp = (\<lambda>x y. x / y)\<rparr>"

definition ieee :: "double arith" where
  "ieee = \<lparr>lit = Fin, mulOp = dmul, addOp = dadd, divOp = ddiv\<rparr>"

subsection \<open>Metrics: fetchPortfolioMetrics\<close>

text \<open>The numeric value of a nullable number in an arithmetic context: \<open>null\<close> is 0.\<close>

definition num :: "number option \<Rightarrow> number" where
  "num p = (case p of None \<Rightarrow> 0 | Some x \<Rightarrow> x)"

text \<open>\<open>stocks.filter((stock) => stock.current_price > 0 && stock.quantity > 0)\<close>\<close>

definition validStocks :: "stock list \<Rightarrow> stock list" where
  "validStocks ss = filter (\<lambda>stock. num (current_price stock) > 0 \<and> quantity stock > 0) ss"

text \<open>\<open>validStocks.reduce((acc, stock) => acc + stock.current_price * stock.quantity, 0)\<close>
  over the arithmetic \<open>ar\<close>.\<close>

definition calcTotalValueWith :: "'d arith \<Rightarrow> stock list \<Rightarrow> 'd" where
  "calcTotalValueWith ar valid =
     foldl (\<lambda>acc stock.
              addOp ar acc (mulOp ar (lit ar (num (current_price stock))) (lit ar (quantity stock))))
       (lit ar 0) valid"

definition calcTotalValue :: "stock list \<Rightarrow> number" where
  "calcTotalValue valid = calcTotalValueWith exact valid"

text \<open>The reducer \<open>(top, stock) => !top || stock.current_price > top.current_price ? stock : top\<close>;
  an object is always truthy, so \<open>!top\<close> holds exactly for \<open>null\<close>.\<close>

definition pickTop :: "stock option \<Rightarrow> stock \<Rightarrow> stock option" where
  "pickTop top' stock =
     (case top' of
        None \<Rightarrow> Some stock
      | Some t \<Rightarrow> if num (current_price stock) > num (current_price t) then Some stock else Some t)"

definition calcTopStock :: "stock list \<Rightarrow> stock option" where
  "calcTopStock valid = foldl pickTop None valid"

text \<open>\<open>(stock.current_price * stock.quantity / totalValue) * 100\<close> over the arithmetic
  \<open>ar\<close>.\<close>

definition percentageWith :: "'d arith \<Rightarrow> 'd \<Rightarrow> stock \<Rightarrow> 'd" where
  "percentageWith ar totalVal stock =
     mulOp ar
       (divOp ar (mulOp ar (lit ar (num (current_price stock))) (lit ar (quantity stock)))
          totalVal)
       (lit ar 100)"

text \<open>\<open>validStocks.map((stock) => ({ ...stock, percentage: ... }))\<close>\<close>

definition calcDistribution :: "number \<Rightarrow> stock list \<Rightarrow> entry list" where
  "calcDistribution totalVal valid =
     map (\<lambda>stock. holding.extend stock \<lparr>percentage = percentageWith exact totalVal stock\<rparr>)
       valid"

definition fetchPortfolioMetrics :: "stock list \<Rightarrow> state \<Rightarrow> state" where
  "fetchPortfolioMetrics ss s =
     (let s1 = s\<lparr>isMetricsLoading := True\<rparr>;
          s2 = (if length ss > 0
                then (let valid = validStocks ss;
                          totalVal = calcTotalValue valid;
                          top' = calcTopStock valid;
                          distribution = calcDistribution totalVal valid
                      in s1\<lparr>portfolioMetrics :=
                             Some \<lparr>totalValue = totalVal, topStock = top',
                                   portfolioDistribution = distribution\<rparr>\<rparr>)
                else s1\<lparr>portfolioMetrics := None\<rparr>)
      in s2\<lparr>isMetricsLoading := False\<rparr>)"

text \<open>The holding inside a distribution entry.\<close>

definition holdingOf :: "entry \<Rightarrow> stock" where
  "holdingOf e = holding.truncate e"

text \<open>\<open>currentPrice * quantity\<close> of one holding, the summand of the total.\<close>

definition worth :: "stock \<Rightarrow> number" where
  "worth stock = num (current_price stock) * quantity stock"

subsection \<open>Chart data: pieChartData\<close>

text \<open>The template string \<open>hsl(${Math.random() * 360}, 70%, 60%)\<close>, kept as its three
  components.\<close>

datatype color = Hsl number nat nat

record dataset =
  data :: "number list"
  backgroundColor :: "color list"
  hoverOffset :: nat

text \<open>The memoised value is the empty object \<open>{}\<close> or an object with \<open>labels\<close> and
  \<open>datasets\<close>.\<close>

datatype chartData = EmptyObject | Chart (labels: "string list") (datasets: "dataset list")

text \<open>\<open>Math.random\<close> is a parameter: \<open>random k\<close> is the value the k-th call of the
  colour callback receives.\<close>

definition pieChartData :: "(nat \<Rightarrow> number) \<Rightarrow> metrics option \<Rightarrow> chartData" where
  "pieChartData random pm =
     (case pm of
        None \<Rightarrow> EmptyObject
      | Some m \<Rightarrow>
          if length (portfolioDistribution m) > 0
          then Chart (map (\<lambda>stock. holding.name stock) (portfolioDistribution m))
                 [\<lparr>data = map (\<lambda>stock. percentage stock) (portfolioDistribution m),
                   backgroundColor =
                     map (\<lambda>k. Hsl (random k * 360) 70 60) [0..<length (portfolioDistribution m)],
                   hoverOffset = 4\<rparr>]
          else EmptyObject)"

subsection \<open>The remote store and the coercions of the form values\<close>

datatype request = POST candidate | PUT nat editbuf | DELETE nat

text \<open>The remote store answers a request with \<open>None\<close> (the promise is rejected) or with
  \<open>Some d\<close>, where \<open>d\<close> is \<open>response.data\<close>. The handlers ignore the data of a DELETE.\<close>

type_synonym remote = "request \<Rightarrow> stock option"

text \<open>The conversion of a string to a number is JavaScript's own and is a parameter
  \<open>toNumber\<close> of the handlers; \<open>None\<close> is \<open>NaN\<close>, for which every comparison is false.\<close>

type_synonym coercion = "string \<Rightarrow> number option"

definition strLe0 :: "coercion \<Rightarrow> string \<Rightarrow> bool" where
  "strLe0 toNumber v = (case toNumber v of None \<Rightarrow> False | Some n \<Rightarrow> n \<le> 0)"

text \<open>\<open>!v\<close> and \<open>v <= 0\<close> for a value of the edit buffer.\<close>

definition falsy :: "field \<Rightarrow> bool" where
  "falsy v = (case v of Num n \<Rightarrow> n = 0 | Str w \<Rightarrow> w = [])"

definition le0 :: "coercion \<Rightarrow> field \<Rightarrow> bool" where
  "le0 toNumber v = (case v of Num n \<Rightarrow> n \<le> 0 | Str w \<Rightarrow> strLe0 toNumber w)"

subsection \<open>The handlers\<close>

text \<open>A handler reads the values of the render it was created in (the state \<open>s\<close>) and
  returns the requests it sent together with the state after its updates.\<close>

definition handleAddStock :: "coercion \<Rightarrow> remote \<Rightarrow> state \<Rightarrow> request list \<times> state" where
  "handleAddStock toNumber remote s =
     (if form.name (newStock s) = [] \<or> form.ticker (newStock s) = []
         \<or> form.quantity (newStock s) = [] \<or> form.buyPrice (newStock s) = []
      then ([], s\<lparr>error := Some ''Please fill in all fields.''\<rparr>)
      else if strLe0 toNumber (form.quantity (newStock s))
              \<or> strLe0 toNumber (form.buyPrice (newStock s))
      then ([], s\<lparr>error := Some ''Quantity and Buy Price must be positive numbers.''\<rparr>)
      else
        (let stockWithPrice = form.extend (newStock s) \<lparr>candidate.current_price = None\<rparr>
         in case remote (POST stockWithPrice) of
              None \<Rightarrow> ([POST stockWithPrice], s\<lparr>error := Some ''Failed to add stock.''\<rparr>)
            | Some d \<Rightarrow>
                ([POST stockWithPrice],
                 fetchPortfolioMetrics (stocks s @ [d])
                   (s\<lparr>stocks := stocks s @ [d], newStock := emptyForm, error := None\<rparr>))))"

text \<open>\<open>setEditStock({ ...stock })\<close>\<close>

definition handleEditStock :: "stock \<Rightarrow> state \<Rightarrow> state" where
  "handleEditStock stock s =
     s\<lparr>editStock := Some \<lparr>stock_id = stock_id stock, name = holding.name stock,
                           ticker = holding.ticker stock, quantity = Num (holding.quantity stock),
                           buyPrice = Num (holding.buyPrice stock),
                           current_price = holding.current_price stock\<rparr>\<rparr>"

text \<open>\<open>setEditStock({ ...editStock, [e.target.name]: e.target.value })\<close>. The four inputs
  are named name, ticker, quantity and buyPrice, and the handler is attached to them only
  while \<open>editStock\<close> is set.\<close>

datatype inputName = NameInput | TickerInput | QuantityInput | BuyPriceInput

definition handleEditChange :: "inputName \<Rightarrow> string \<Rightarrow> state \<Rightarrow> state" where
  "handleEditChange target v s =
     (case editStock s of
        None \<Rightarrow> s
      | Some e \<Rightarrow>
          s\<lparr>editStock :=
              Some (case target of
                      NameInput \<Rightarrow> e\<lparr>holding.name := v\<rparr>
                    | TickerInput \<Rightarrow> e\<lparr>holding.ticker := v\<rparr>
                    | QuantityInput \<Rightarrow> e\<lparr>holding.quantity := Str v\<rparr>
                    | BuyPriceInput \<Rightarrow> e\<lparr>holding.buyPrice := Str v\<rparr>)\<rparr>)"

definition handleSaveEdit :: "coercion \<Rightarrow> remote \<Rightarrow> state \<Rightarrow> request list \<times> state" where
  "handleSaveEdit toNumber remote s =
     (case editStock s of
        None \<Rightarrow> ([], s\<lparr>error := Some ''Please fill in all fields.''\<rparr>)
      | Some e \<Rightarrow>
          if holding.name e = [] \<or> holding.ticker e = []
             \<or> falsy (holding.quantity e) \<or> falsy (holding.buyPrice e)
          then ([], s\<lparr>error := Some ''Please fill in all fields.''\<rparr>)
          else if le0 toNumber (holding.quantity e) \<or> le0 toNumber (holding.buyPrice e)
          then ([], s\<lparr>error := Some ''Quantity and Buy Price must be positive numbers.''\<rparr>)
          else
            (case remote (PUT (stock_id e) e) of
               None \<Rightarrow> ([PUT (stock_id e) e], s\<lparr>error := Some ''Failed to update stock.''\<rparr>)
             | Some d \<Rightarrow>
                 ([PUT (stock_id e) e],
                  fetchPortfolioMetrics (stocks s)
                    (s\<lparr>stocks := map (\<lambda>stock. if stock_id stock = stock_id e then d else stock)
                                   (stocks s),
                       editStock := None\<rparr>))))"

definition handleCancelEdit :: "state \<Rightarrow> state" where
  "handleCancelEdit s = s\<lparr>editStock := None\<rparr>"

definition handleDeleteStock :: "remote \<Rightarrow> nat \<Rightarrow> state \<Rightarrow> request list \<times> state" where
  "handleDeleteStock remote i s =
     (case remote (DELETE i) of
        None \<Rightarrow> ([DELETE i], s\<lparr>error := Some ''Failed to delete stock.''\<rparr>)
      | Some d \<Rightarrow>
          ([DELETE i],
           fetchPortfolioMetrics (filter (\<lambda>stock. stock_id stock \<noteq> i) (stocks s))
             (s\<lparr>stocks := filter (\<lambda>stock. stock_id stock \<noteq> i) (stocks s)\<rparr>)))"

subsection \<open>Loading: fetchStocks\<close>

text \<open>The outcome of \<open>axios.get\<close>: the promise is rejected, or \<open>response.data\<close> is
  not an array, or it is an array of holdings.\<close>

datatype getOutcome = Rejected | NotArray | Array "stock list"

definition fetchStocks :: "getOutcome \<Rightarrow> state \<Rightarrow> state" where
  "fetchStocks r s =
     (case r of
        Array d \<Rightarrow> (fetchPortfolioMetrics d (s\<lparr>stocks := d\<rparr>))\<lparr>loading := False\<rparr>
      | _ \<Rightarrow> s\<lparr>error := Some ''Failed to fetch stock data.'', loading := False\<rparr>)"

subsection \<open>Rendering the metrics\<close>

text \<open>The part of the returned JSX that reads \<open>portfolioMetrics\<close>: while \<open>loading\<close> the
  page shows a loading message; otherwise it reads \<open>portfolioMetrics.totalValue\<close>,
  \<open>portfolioMetrics.topStock\<close> and \<open>portfolioMetrics.portfolioDistribution\<close> with no test
  for \<open>null\<close>, so that rendering throws a \<open>TypeError\<close> when the metrics are \<open>null\<close>. The
  panel keeps the numbers it shows (the formatting by \<open>toFixed\<close> is left out), and the
  error banner, the cards and the form are left out.\<close>

datatype distributionView = LoadingMetrics | PieChart chartData | NoStocksInPortfolio

record panel =
  totalShown :: number
  topShown :: "(string \<times> number option) option"
  distributionShown :: distributionView

datatype page = LoadingStocks | Dashboard panel

datatype renderError = TypeError

definition render :: "(nat \<Rightarrow> number) \<Rightarrow> state \<Rightarrow> renderError + page" where
  "render random s =
     (if loading s then Inr LoadingStocks
      else case portfolioMetrics s of
             None \<Rightarrow> Inl TypeError
           | Some m \<Rightarrow>
               Inr (Dashboard
                 \<lparr>totalShown = totalValue m,
                  topShown = (case topStock m of
                                None \<Rightarrow> None
                              | Some t \<Rightarrow> Some (holding.name t, holding.current_price t)),
                  distributionShown =
                    (if isMetricsLoading s then LoadingMetrics
                     else if length (portfolioDistribution m) > 0
                     then PieChart (pieChartData random (portfolioMetrics s))
                     else NoStocksInPortfolio)\<rparr>))"

subsection \<open>Non-negative doubles\<close>

text \<open>The doubles that a sum of products of positive numbers can be: a positive value
  (finite and at least the least subnormal, or \<open>+Infinity\<close>) or \<open>+0\<close>.\<close>

definition positive64 :: "double \<Rightarrow> bool" where
  "positive64 d = (case d of PosInf \<Rightarrow> True | Fin c \<Rightarrow> pow2 (- 1074) \<le> c | NaN \<Rightarrow> False
                   | NegInf \<Rightarrow> False)"

definition nonneg64 :: "double \<Rightarrow> bool" where
  "nonneg64 d = (d = Fin 0 \<or> positive64 d)"

subsection \<open>The specification's notion of an eligible holding\<close>

text \<open>Section 4.2 of the specification: a holding is eligible when its current price is
  set and positive and its quantity is positive. The theorems compare it with the filter
  of the code.\<close>

definition eligible :: "stock \<Rightarrow> bool" where
  "eligible h = (case current_price h of None \<Rightarrow> False | Some p \<Rightarrow> 0 < p \<and> 0 < quantity h)"

subsection \<open>Concrete inputs\<close>

text \<open>A coercion for the examples: JavaScript's conversion restricted to integer
  literals (the empty string is 0); every other string is \<open>NaN\<close> here.\<close>

fun digits :: "nat \<Rightarrow> string \<Rightarrow> nat option" where
  "digits acc [] = Some acc"
| "digits acc (c # cs) =
     (let d = (of_char c :: nat)
      in if 48 \<le> d \<and> d \<le> 57 then digits (10 * acc + (d - 48)) cs else None)"

definition integerLiteral :: coercion where
  "integerLiteral v =
     (case v of
        [] \<Rightarrow> Some 0
      | c # cs \<Rightarrow>
          if c = CHR ''-''
          then (if cs = [] then None else map_option (\<lambda>n. - of_nat n) (digits 0 cs))
          else map_option of_nat (digits 0 v))"

text \<open>The holdings of the scenarios in section 8 of the specification, and an unpriced one.\<close>

definition stockA :: stock where
  "stockA = \<lparr>stock_id = 1, name = ''A'', ticker = ''AAA'', quantity = 2, buyPrice = 5,
             current_price = Some 10\<rparr>"

definition stockB :: stock where
  "stockB = \<lparr>stock_id = 2, name = ''B'', ticker = ''BBB'', quantity = 1, buyPrice = 20,
             current_price = Some 30\<rparr>"

definition stockC :: stock where
  "stockC = \<lparr>stock_id = 3, name = ''C'', ticker = ''CCC'', quantity = 5, buyPrice = 1,
             current_price = None\<rparr>"

text \<open>The state after loading a portfolio that holds \<open>stockA\<close> only.\<close>

definition loaded :: state where
  "loaded = fetchStocks (Array [stockA]) initialState"

text \<open>A holding priced like \<open>stockB\<close>, for the tie of the top price.\<close>

definition stockD :: stock where
  "stockD = \<lparr>stock_id = 4, name = ''D'', ticker = ''DDD'', quantity = 3, buyPrice = 7,
             current_price = Some 30\<rparr>"

text \<open>\<open>stockA\<close> is being edited and 3 has been typed into the quantity input; the remote
  store answers the PUT with the holding at quantity 3.\<close>

definition editing :: state where
  "editing = handleEditChange QuantityInput ''3'' (handleEditStock stockA loaded)"

definition stockA3 :: stock where
  "stockA3 = stockA\<lparr>quantity := 3\<rparr>"

text \<open>A delete and an update that the remote store rejected: each leaves its message in
  \<open>error\<close>.\<close>

definition deleteFailed :: state where
  "deleteFailed = snd (handleDeleteStock (\<lambda>r. None) 1 loaded)"

definition updateFailed :: state where
  "updateFailed = snd (handleSaveEdit integerLiteral (\<lambda>r. None) editing)"

text \<open>The add form filled in with quantity 0, and filled in correctly.\<close>

definition zeroQuantity :: state where
  "zeroQuantity = loaded\<lparr>newStock := \<lparr>form.name = ''B'', form.ticker = ''BBB'',
      form.quantity = ''0'', form.buyPrice = ''20''\<rparr>\<rparr>"

definition filledIn :: state where
  "filledIn = editing\<lparr>newStock := \<lparr>form.name = ''B'', form.ticker = ''BBB'',
      form.quantity = ''1'', form.buyPrice = ''20''\<rparr>\<rparr>"

text \<open>A holding whose price and quantity are the double \<open>2^-600\<close>.\<close>

definition tiny :: stock where
  "tiny = \<lparr>stock_id = 5, name = ''T'', ticker = ''TTT'', quantity = 1 / 2 ^ 600, buyPrice = 1,
           current_price = Some (1 / 2 ^ 600)\<rparr>"

subsection \<open>Facts about the metrics\<close>

lemma calcTotalValue_fold:
  "calcTotalValue valid =
     foldl (\<lambda>acc stock. acc + num (current_price stock) * quantity stock) 0 valid"
  by (simp add: calcTotalValue_def calcTotalValueWith_def exact_def)

lemma calcDistribution_map:
  "calcDistribution totalVal valid =
     map (\<lambda>stock. holding.extend stock
            \<lparr>percentage = (num (current_price stock) * quantity stock / totalVal) * 100\<rparr>) valid"
  by (simp add: calcDistribution_def percentageWith_def exact_def)

lemma foldl_worth: "foldl (\<lambda>acc stock. acc + num (current_price stock) * quantity stock) a xs
    = a + sum_list (map worth xs)"
  by (induction xs arbitrary: a) (simp_all add: worth_def add.assoc)

lemma calcTotalValue_sum: "calcTotalValue xs = sum_list (map worth xs)"
  by (simp add: calcTotalValue_fold foldl_worth)




lemma holdingOf_extend: "holdingOf (holding.extend stock \<lparr>percentage = p\<rparr>) = stock"
  by (simp add: holdingOf_def holding.extend_def holding.truncate_def)


lemma holdingOf_distribution: "map holdingOf (calcDistribution totalVal valid) = valid"
  by (simp add: calcDistribution_map o_def holdingOf_extend)


lemma metrics_nonempty:
  "ss \<noteq> [] \<Longrightarrow> portfolioMetrics (fetchPortfolioMetrics ss s) =
     Some \<lparr>totalValue = calcTotalValue (validStocks ss),
           topStock = calcTopStock (validStocks ss),
           portfolioDistribution =
             calcDistribution (calcTotalValue (validStocks ss)) (validStocks ss)\<rparr>"
  by (simp add: fetchPortfolioMetrics_def Let_def)

lemma metrics_empty: "portfolioMetrics (fetchPortfolioMetrics [] s) = None"
  by (simp add: fetchPortfolioMetrics_def)

lemma metrics_loading: "isMetricsLoading (fetchPortfolioMetrics ss s) = False"
  by (simp add: fetchPortfolioMetrics_def Let_def)

lemma validStocks_eligible: "validStocks ss = filter eligible ss"
  unfolding validStocks_def eligible_def
  by (rule filter_cong) (auto simp: num_def split: option.splits)

lemma worth_eligible: "eligible h \<Longrightarrow> worth h = the (current_price h) * quantity h"
  by (auto simp: eligible_def worth_def num_def split: option.splits)

lemma sum_worth_eligible:
  "sum_list (map worth (filter eligible ss)) = (\<Sum>h\<leftarrow>filter eligible ss. the (current_price h) * quantity h)"
  by (rule arg_cong[where f=sum_list], rule map_cong) (simp_all add: worth_eligible)

lemma pickTop_fold:
  "xs \<noteq> [] \<Longrightarrow> \<exists>t ys zs. foldl pickTop None xs = Some t \<and> xs = ys @ t # zs
      \<and> (\<forall>y\<in>set ys. num (current_price y) < num (current_price t))
      \<and> (\<forall>z\<in>set zs. num (current_price z) \<le> num (current_price t))"
proof (induction xs rule: rev_induct)
  case Nil
  then show ?case by simp
next
  case (snoc x xs)
  show ?case
  proof (cases "xs = []")
    case True
    have "foldl pickTop None (xs @ [x]) = Some x" using True by (simp add: pickTop_def)
    moreover have "xs @ [x] = [] @ x # []" using True by simp
    ultimately show ?thesis by (intro exI[of _ x] exI[of _ "[]"]) simp
  next
    case False
    from snoc.IH[OF False] obtain t ys zs where
      t: "foldl pickTop None xs = Some t" "xs = ys @ t # zs"
         "\<forall>y\<in>set ys. num (current_price y) < num (current_price t)"
         "\<forall>z\<in>set zs. num (current_price z) \<le> num (current_price t)" by blast
    show ?thesis
    proof (cases "num (current_price x) > num (current_price t)")
      case True
      have "foldl pickTop None (xs @ [x]) = Some x" using t(1) True by (simp add: pickTop_def)
      moreover have "xs @ [x] = xs @ x # []" by simp
      moreover have "\<forall>y\<in>set xs. num (current_price y) < num (current_price x)"
        using t(2,3,4) True by auto
      ultimately show ?thesis by (intro exI[of _ x] exI[of _ xs] exI[of _ "[]"]) simp
    next
      case F2: False
      have "foldl pickTop None (xs @ [x]) = Some t" using t(1) F2 by (simp add: pickTop_def)
      moreover have "xs @ [x] = ys @ t # (zs @ [x])" using t(2) by simp
      moreover have "\<forall>z\<in>set (zs @ [x]). num (current_price z) \<le> num (current_price t)"
        using t(4) F2 by auto
      ultimately show ?thesis using t(3) by blast
    qed
  qed
qed

lemma num_eligible: "eligible h \<Longrightarrow> num (current_price h) = the (current_price h)"
  by (auto simp: eligible_def num_def split: option.splits)


lemma calcTopStock_member:
  assumes "calcTopStock xs = Some t"
  shows "t \<in> set xs"
proof (cases "xs = []")
  case True
  with assms show ?thesis by (simp add: calcTopStock_def)
next
  case False
  from pickTop_fold[OF False] obtain u ys zs where
    u: "foldl pickTop None xs = Some u" "xs = ys @ u # zs" by blast
  from u(1) assms have "u = t" by (simp add: calcTopStock_def)
  moreover have "u \<in> set (ys @ u # zs)" by simp
  ultimately show ?thesis using u(2) by simp
qed

subsection \<open>Facts about the handlers and the concrete inputs\<close>

lemma loaded_eq: "loaded =
   \<lparr>stocks = [stockA], newStock = emptyForm, editStock = None, loading = False, error = None,
    portfolioMetrics = Some \<lparr>totalValue = 20, topStock = Some stockA,
       portfolioDistribution = [holding.extend stockA \<lparr>percentage = 100\<rparr>]\<rparr>,
    isMetricsLoading = False\<rparr>"
  by (simp add: loaded_def fetchStocks_def initialState_def fetchPortfolioMetrics_def
      validStocks_def calcTotalValue_fold calcTopStock_def pickTop_def calcDistribution_map
      num_def stockA_def)

lemma editing_eq: "editing = loaded\<lparr>editStock :=
     Some \<lparr>stock_id = 1, name = ''A'', ticker = ''AAA'', quantity = Str ''3'',
           buyPrice = Num 5, current_price = Some 10\<rparr>\<rparr>"
  by (simp add: editing_def handleEditChange_def handleEditStock_def stockA_def)

lemma integerLiteral_3: "integerLiteral ''3'' = Some 3"
  by (simp add: integerLiteral_def)

lemma editing_save:
  "handleSaveEdit integerLiteral (\<lambda>r. Some stockA3) editing =
     ([PUT 1 \<lparr>stock_id = 1, name = ''A'', ticker = ''AAA'', quantity = Str ''3'',
               buyPrice = Num 5, current_price = Some 10\<rparr>],
      fetchPortfolioMetrics [stockA] (loaded\<lparr>stocks := [stockA3]\<rparr>))"
  by (simp add: handleSaveEdit_def editing_eq loaded_eq falsy_def le0_def strLe0_def
      integerLiteral_3 stockA_def)

lemma metrics_indep:
  "portfolioMetrics (fetchPortfolioMetrics ss s) = portfolioMetrics (fetchPortfolioMetrics ss s')"
  by (simp add: fetchPortfolioMetrics_def Let_def)

lemma fetchPortfolioMetrics_error: "error (fetchPortfolioMetrics ss s) = error s"
  by (simp add: fetchPortfolioMetrics_def Let_def)

lemma fetchPortfolioMetrics_stocks: "stocks (fetchPortfolioMetrics ss s) = stocks s"
  by (simp add: fetchPortfolioMetrics_def Let_def)

lemma handleSaveEdit_metrics_snapshot:
  assumes "fst (handleSaveEdit toNumber remote s) = [r]" and "remote r = Some d"
  shows "portfolioMetrics (snd (handleSaveEdit toNumber remote s))
           = portfolioMetrics (fetchPortfolioMetrics (stocks s) s)"
proof (cases "editStock s")
  case None
  with assms show ?thesis by (simp add: handleSaveEdit_def)
next
  case (Some e)
  show ?thesis
  proof (cases "holding.name e = [] \<or> holding.ticker e = []
             \<or> falsy (holding.quantity e) \<or> falsy (holding.buyPrice e)
             \<or> le0 toNumber (holding.quantity e) \<or> le0 toNumber (holding.buyPrice e)")
    case True
    with assms Some show ?thesis by (simp add: handleSaveEdit_def split: if_split_asm)
  next
    case False
    with assms Some have "remote (PUT (stock_id e) e) = Some d"
      by (simp add: handleSaveEdit_def split: option.split_asm)
    with False Some show ?thesis
      by (simp add: handleSaveEdit_def) (rule metrics_indep)
  qed
qed

lemma deleteFailed_eq: "deleteFailed = loaded\<lparr>error := Some ''Failed to delete stock.''\<rparr>"
  by (simp add: deleteFailed_def handleDeleteStock_def)

lemma updateFailed_eq: "updateFailed = editing\<lparr>error := Some ''Failed to update stock.''\<rparr>"
  by (simp add: updateFailed_def handleSaveEdit_def editing_eq falsy_def le0_def strLe0_def
      integerLiteral_3)

lemma handleAddStock_failure:
  assumes "fst (handleAddStock toNumber remote s) = [r]" and "remote r = None"
  shows "snd (handleAddStock toNumber remote s) = s\<lparr>error := Some ''Failed to add stock.''\<rparr>"
proof (cases "form.name (newStock s) = [] \<or> form.ticker (newStock s) = []
           \<or> form.quantity (newStock s) = [] \<or> form.buyPrice (newStock s) = []
           \<or> strLe0 toNumber (form.quantity (newStock s))
           \<or> strLe0 toNumber (form.buyPrice (newStock s))")
  case True
  with assms(1) show ?thesis by (simp add: handleAddStock_def split: if_split_asm)
next
  case False
  let ?c = "form.extend (newStock s) \<lparr>candidate.current_price = None\<rparr>"
  from False assms(1) have "r = POST ?c"
    by (simp add: handleAddStock_def Let_def split: option.split_asm)
  with assms(2) have "remote (POST ?c) = None" by simp
  with False show ?thesis by (simp add: handleAddStock_def Let_def)
qed

lemma handleSaveEdit_failure:
  assumes "fst (handleSaveEdit toNumber remote s) = [r]" and "remote r = None"
  shows "snd (handleSaveEdit toNumber remote s) = s\<lparr>error := Some ''Failed to update stock.''\<rparr>"
proof (cases "editStock s")
  case None
  with assms(1) show ?thesis by (simp add: handleSaveEdit_def)
next
  case (Some e)
  show ?thesis
  proof (cases "holding.name e = [] \<or> holding.ticker e = []
             \<or> falsy (holding.quantity e) \<or> falsy (holding.buyPrice e)
             \<or> le0 toNumber (holding.quantity e) \<or> le0 toNumber (holding.buyPrice e)")
    case True
    with assms(1) Some show ?thesis by (simp add: handleSaveEdit_def split: if_split_asm)
  next
    case False
    with assms(1) Some have "r = PUT (stock_id e) e"
      by (simp add: handleSaveEdit_def split: option.split_asm)
    with assms(2) have "remote (PUT (stock_id e) e) = None" by simp
    with False Some show ?thesis by (simp add: handleSaveEdit_def)
  qed
qed

lemma handleDeleteStock_failure:
  assumes "remote (DELETE i) = None"
  shows "snd (handleDeleteStock remote i s) = s\<lparr>error := Some ''Failed to delete stock.''\<rparr>"
  using assms by (simp add: handleDeleteStock_def)

lemma filledIn_eq: "filledIn = loaded\<lparr>newStock := \<lparr>form.name = ''B'', form.ticker = ''BBB'',
      form.quantity = ''1'', form.buyPrice = ''20''\<rparr>,
     editStock := Some \<lparr>stock_id = 1, name = ''A'', ticker = ''AAA'', quantity = Str ''3'',
           buyPrice = Num 5, current_price = Some 10\<rparr>\<rparr>"
  by (simp add: filledIn_def editing_eq)

lemma integerLiteral_1: "integerLiteral ''1'' = Some 1"
  by (simp add: integerLiteral_def)

lemma integerLiteral_20: "integerLiteral ''20'' = Some 20"
  by (simp add: integerLiteral_def)

subsection \<open>Facts about double arithmetic\<close>

lemma pow2_powi: "pow2 e = 2 powi e"
  by (simp add: pow2_def power_int_def inverse_eq_divide power_divide)

lemma pow2_pos: "0 < pow2 e"
  by (simp add: pow2_powi)

lemma pow2_mono: "e \<le> e' \<Longrightarrow> pow2 e \<le> pow2 e'"
  by (simp add: pow2_powi power_int_increasing)

lemma expSearch_ge: "e \<le> expSearch k e a"
proof (induction k arbitrary: e)
  case 0
  show ?case by simp
next
  case (Suc k)
  have "e + 1 \<le> expSearch k (e + 1) a" by (rule Suc.IH)
  then show ?case by simp
qed

lemma expSearch_below: "expSearch k e a = e \<or> pow2 (expSearch k e a) \<le> a"
proof (induction k arbitrary: e)
  case 0
  show ?case by simp
next
  case (Suc k)
  show ?case
  proof (cases "a < pow2 (e + 1)")
    case True
    then show ?thesis by simp
  next
    case False
    from Suc.IH[of "e + 1"] have "pow2 (expSearch k (e + 1) a) \<le> a"
    proof
      assume "expSearch k (e + 1) a = e + 1"
      with False show ?thesis by simp
    next
      assume "pow2 (expSearch k (e + 1) a) \<le> a"
      then show ?thesis .
    qed
    with False show ?thesis by simp
  qed
qed

lemma expSearch_exact:
  "e0 \<le> e \<Longrightarrow> nat (e - e0) \<le> k \<Longrightarrow> pow2 e \<le> a \<Longrightarrow> a < pow2 (e + 1)
     \<Longrightarrow> expSearch k e0 a = e"
proof (induction k arbitrary: e0)
  case 0
  then show ?case by simp
next
  case (Suc k)
  show ?case
  proof (cases "e0 = e")
    case True
    with Suc.prems show ?thesis by simp
  next
    case False
    with Suc.prems have lt: "e0 + 1 \<le> e" by simp
    then have "pow2 (e0 + 1) \<le> pow2 e" by (rule pow2_mono)
    with Suc.prems(3) have "\<not> a < pow2 (e0 + 1)" by simp
    moreover have "expSearch k (e0 + 1) a = e"
      using lt Suc.prems by (intro Suc.IH) simp_all
    ultimately show ?thesis by simp
  qed
qed

lemma binexp_exact:
  "- 1022 \<le> e \<Longrightarrow> e \<le> 1023 \<Longrightarrow> pow2 e \<le> a \<Longrightarrow> a < pow2 (e + 1) \<Longrightarrow> binexp a = e"
  unfolding binexp_def by (rule expSearch_exact) simp_all

lemma binexp_subnormal: "a < pow2 (- 1021) \<Longrightarrow> binexp a = - 1022"
  by (simp add: binexp_def numeral_eq_Suc)

lemma quantum_ge: "pow2 (- 1074) \<le> pow2 (binexp a - 52)"
proof -
  have "- 1022 \<le> binexp a" unfolding binexp_def by (rule expSearch_ge)
  then show ?thesis by (intro pow2_mono) simp
qed

lemma quantum_le:
  assumes "pow2 (- 1074) \<le> a"
  shows "pow2 (binexp a - 52) \<le> a"
proof -
  from expSearch_below[of 2045 "- 1022" a]
  have "binexp a = - 1022 \<or> pow2 (binexp a) \<le> a" by (simp add: binexp_def)
  then show ?thesis
  proof
    assume "binexp a = - 1022"
    with assms show ?thesis by simp
  next
    assume b: "pow2 (binexp a) \<le> a"
    have "pow2 (binexp a - 52) \<le> pow2 (binexp a)" by (intro pow2_mono) simp
    with b show ?thesis by simp
  qed
qed

lemma roundHalfEven_floor: "\<lfloor>y\<rfloor> \<le> roundHalfEven y"
  by (simp add: roundHalfEven_def Let_def)

lemma roundHalfEven_nonneg:
  assumes "0 \<le> y"
  shows "0 \<le> roundHalfEven y"
proof -
  from assms have "0 \<le> \<lfloor>y\<rfloor>" by simp
  with roundHalfEven_floor[of y] show ?thesis by linarith
qed

lemma roundHalfEven_ge1:
  assumes "1 \<le> y"
  shows "1 \<le> roundHalfEven y"
proof -
  from assms have "1 \<le> \<lfloor>y\<rfloor>" by simp
  with roundHalfEven_floor[of y] show ?thesis by linarith
qed

lemma roundHalfEven_small:
  assumes a: "0 \<le> y" "y < 1 / 2"
  shows "roundHalfEven y = 0"
proof -
  from a have "\<lfloor>y\<rfloor> = 0" by (simp add: floor_eq_iff)
  with a show ?thesis by (simp add: roundHalfEven_def)
qed

lemma roundHalfEven_int: "roundHalfEven (of_int n) = n"
  by (simp add: roundHalfEven_def)

text \<open>The doubles that a sum of products of positive numbers can be: \<open>+0\<close>, a positive
  finite value (at least the least subnormal) or \<open>+Infinity\<close>.\<close>

lemma round64_nonneg:
  assumes "0 \<le> x"
  shows "round64 x = PosInf \<or> round64 x = Fin 0 \<or> (\<exists>c. round64 x = Fin c \<and> pow2 (- 1074) \<le> c)"
proof (cases "x = 0")
  case True
  then show ?thesis by (simp add: round64_def)
next
  case False
  with assms have pos: "0 < x" by simp
  let ?q = "pow2 (binexp \<bar>x\<bar> - 52)"
  let ?n = "roundHalfEven (\<bar>x\<bar> / ?q)"
  let ?y = "of_int ?n * ?q"
  have q: "0 < ?q" by (rule pow2_pos)
  have "0 \<le> \<bar>x\<bar> / ?q" using q by simp
  then have n: "0 \<le> ?n" by (rule roundHalfEven_nonneg)
  have y: "?y = 0 \<or> pow2 (- 1074) \<le> ?y"
  proof (cases "?n = 0")
    case True
    then show ?thesis by simp
  next
    case False
    with n have "1 \<le> ?n" by simp
    then have "(1::rat) \<le> of_int ?n" by simp
    then have "1 * ?q \<le> of_int ?n * ?q" using q by (intro mult_right_mono) simp_all
    with quantum_ge[of "\<bar>x\<bar>"] show ?thesis by simp
  qed
  show ?thesis
  proof (cases "pow2 1024 \<le> \<bar>x\<bar> \<or> pow2 1024 \<le> ?y")
    case True
    with pos show ?thesis by (auto simp: round64_def Let_def)
  next
    case False
    with pos have "round64 x = Fin ?y" by (simp add: round64_def Let_def)
    with y show ?thesis by auto
  qed
qed

lemma round64_positive:
  assumes "pow2 (- 1074) \<le> x"
  shows "round64 x = PosInf \<or> (\<exists>c. round64 x = Fin c \<and> pow2 (- 1074) \<le> c)"
proof -
  have pos: "0 < x" using assms pow2_pos[of "- 1074"] by simp
  then have ax: "\<bar>x\<bar> = x" by simp
  let ?q = "pow2 (binexp x - 52)"
  let ?n = "roundHalfEven (x / ?q)"
  let ?y = "of_int ?n * ?q"
  have q: "0 < ?q" by (rule pow2_pos)
  have "?q \<le> x" using assms by (rule quantum_le)
  then have "1 \<le> x / ?q" using q by simp
  then have "1 \<le> ?n" by (rule roundHalfEven_ge1)
  then have "(1::rat) \<le> of_int ?n" by simp
  then have "1 * ?q \<le> of_int ?n * ?q" using q by (intro mult_right_mono) simp_all
  with quantum_ge[of x] have y: "pow2 (- 1074) \<le> ?y" by simp
  show ?thesis
  proof (cases "pow2 1024 \<le> x \<or> pow2 1024 \<le> ?y")
    case True
    with pos show ?thesis by (auto simp: round64_def Let_def)
  next
    case False
    with pos have "round64 x = Fin ?y" by (simp add: round64_def Let_def)
    with y show ?thesis by auto
  qed
qed

lemma round64_underflow:
  assumes "0 \<le> x" and "x < pow2 (- 1075)"
  shows "round64 x = Fin 0"
proof (cases "x = 0")
  case True
  then show ?thesis by (simp add: round64_def)
next
  case False
  with assms have pos: "0 < x" by simp
  have "pow2 (- 1075) \<le> pow2 (- 1021)" by (intro pow2_mono) simp
  with assms(2) have "x < pow2 (- 1021)" by simp
  then have b: "binexp x = - 1022" by (rule binexp_subnormal)
  have h: "pow2 (- 1075) = pow2 (- 1074) / 2" by (simp add: pow2_def)
  have "x / pow2 (- 1074) < 1 / 2"
    using assms(2) pow2_pos[of "- 1074"] unfolding h by (simp add: field_simps)
  moreover have "0 \<le> x / pow2 (- 1074)" using pos pow2_pos[of "- 1074"] by simp
  ultimately have n: "roundHalfEven (x / pow2 (- 1074)) = 0" by (intro roundHalfEven_small)
  have "pow2 (- 1075) \<le> pow2 1024" by (intro pow2_mono) simp
  with assms(2) have "\<not> pow2 1024 \<le> x" by simp
  moreover have "\<not> pow2 1024 \<le> 0" using pow2_pos[of 1024] by simp
  ultimately show ?thesis using pos b n by (simp add: round64_def Let_def)
qed

lemma round64_exact:
  assumes "- 1022 \<le> e" and "e \<le> 1023" and "pow2 e \<le> x" and "x < pow2 (e + 1)"
      and "x / pow2 (e - 52) = of_int n"
  shows "round64 x = Fin x"
proof -
  have pos: "0 < x" using assms(3) pow2_pos[of e] by simp
  have b: "binexp \<bar>x\<bar> = e" using assms(1-4) pos by (intro binexp_exact) simp_all
  have q: "0 < pow2 (e - 52)" by (rule pow2_pos)
  have "pow2 (e + 1) \<le> pow2 1024" using assms(2) by (intro pow2_mono) simp
  with assms(4) have lt: "\<not> pow2 1024 \<le> x" by simp
  have "roundHalfEven (\<bar>x\<bar> / pow2 (e - 52)) = n"
    using pos assms(5) by (simp add: roundHalfEven_int)
  moreover have "of_int n * pow2 (e - 52) = x"
    using assms(5) q by (simp add: field_simps)
  ultimately show ?thesis using pos b lt by (simp add: round64_def Let_def)
qed

lemma positive64_not_zero: "positive64 d \<Longrightarrow> d \<noteq> Fin 0"
  using pow2_pos[of "- 1074"] by (auto simp: positive64_def)

lemma nonneg64_simps:
  "nonneg64 d \<Longrightarrow> d \<noteq> NaN" "nonneg64 d \<Longrightarrow> d \<noteq> NegInf"
  by (auto simp: nonneg64_def positive64_def)

lemma nonneg64_round: "0 \<le> x \<Longrightarrow> nonneg64 (round64 x)"
  using round64_nonneg[of x] by (auto simp: nonneg64_def positive64_def)

lemma positive64_round: "pow2 (- 1074) \<le> x \<Longrightarrow> positive64 (round64 x)"
  using round64_positive[of x] by (auto simp: positive64_def)

lemma nonneg64_cases:
  assumes "nonneg64 d"
  obtains "d = PosInf" | c where "d = Fin c" "c = 0 \<or> pow2 (- 1074) \<le> c"
  using assms by (cases d) (auto simp: nonneg64_def positive64_def)

lemma nonneg64_Fin: "nonneg64 (Fin c) \<Longrightarrow> 0 \<le> c"
  using pow2_pos[of "- 1074"] by (auto simp: nonneg64_def positive64_def)

lemma dadd_nonneg:
  assumes "nonneg64 u" and "nonneg64 v"
  shows "nonneg64 (dadd u v)"
using assms(1)
proof (cases rule: nonneg64_cases)
  case 1
  show ?thesis
    using assms(2)
  proof (cases rule: nonneg64_cases)
    case 1
    with \<open>u = PosInf\<close> show ?thesis by (simp add: nonneg64_def positive64_def)
  next
    case (2 c)
    with \<open>u = PosInf\<close> show ?thesis by (simp add: nonneg64_def positive64_def)
  qed
next
  case (2 a)
  show ?thesis
    using assms(2)
  proof (cases rule: nonneg64_cases)
    case 1
    with 2 show ?thesis by (simp add: nonneg64_def positive64_def)
  next
    case (2 b)
    from assms \<open>u = Fin a\<close> 2 have "0 \<le> a" "0 \<le> b" by (auto dest: nonneg64_Fin)
    then have "nonneg64 (round64 (a + b))" by (intro nonneg64_round) simp
    with \<open>u = Fin a\<close> 2 show ?thesis by simp
  qed
qed

lemma dadd_positive:
  assumes "nonneg64 u" and "nonneg64 v" and "positive64 u \<or> positive64 v"
  shows "positive64 (dadd u v)"
using assms(1)
proof (cases rule: nonneg64_cases)
  case 1
  show ?thesis
    using assms(2)
  proof (cases rule: nonneg64_cases)
    case 1
    with \<open>u = PosInf\<close> show ?thesis by (simp add: positive64_def)
  next
    case (2 c)
    with \<open>u = PosInf\<close> show ?thesis by (simp add: positive64_def)
  qed
next
  case (2 a)
  show ?thesis
    using assms(2)
  proof (cases rule: nonneg64_cases)
    case 1
    with 2 show ?thesis by (simp add: positive64_def)
  next
    case (2 b)
    from assms(1,2) \<open>u = Fin a\<close> 2 have nn: "0 \<le> a" "0 \<le> b" by (auto dest: nonneg64_Fin)
    from assms(3) \<open>u = Fin a\<close> 2 have "pow2 (- 1074) \<le> a \<or> pow2 (- 1074) \<le> b"
      by (simp add: positive64_def)
    with nn have "pow2 (- 1074) \<le> a + b" by auto
    then have "positive64 (round64 (a + b))" by (rule positive64_round)
    with \<open>u = Fin a\<close> 2 show ?thesis by simp
  qed
qed

lemma round64_zero: "round64 0 = Fin 0"
  by (simp add: round64_def)

lemma dadd_zero: "dadd (Fin 0) (Fin 0) = Fin 0"
  by (simp add: round64_zero)

lemma foldl_dadd_nonneg:
  "nonneg64 acc \<Longrightarrow> (\<And>st. st \<in> set xs \<Longrightarrow> nonneg64 (f st))
     \<Longrightarrow> nonneg64 (foldl (\<lambda>acc st. dadd acc (f st)) acc xs)"
proof (induction xs arbitrary: acc)
  case Nil
  then show ?case by simp
next
  case (Cons x xs)
  have "nonneg64 (dadd acc (f x))" using Cons.prems by (intro dadd_nonneg) simp_all
  then show ?case using Cons.prems(2) by (simp add: Cons.IH)
qed

lemma foldl_dadd_positive:
  "nonneg64 acc \<Longrightarrow> (\<And>st. st \<in> set xs \<Longrightarrow> nonneg64 (f st))
     \<Longrightarrow> positive64 acc \<or> (\<exists>st\<in>set xs. positive64 (f st))
     \<Longrightarrow> positive64 (foldl (\<lambda>acc st. dadd acc (f st)) acc xs)"
proof (induction xs arbitrary: acc)
  case Nil
  then show ?case by simp
next
  case (Cons x xs)
  have nn: "nonneg64 (dadd acc (f x))" using Cons.prems by (intro dadd_nonneg) simp_all
  have fx: "nonneg64 (f x)" using Cons.prems(2) by simp
  show ?case
  proof (cases "positive64 acc \<or> positive64 (f x)")
    case True
    with Cons.prems(1) fx have "positive64 (dadd acc (f x))" by (intro dadd_positive)
    with nn Cons.prems(2) show ?thesis by (simp add: Cons.IH)
  next
    case False
    with Cons.prems(3) have "\<exists>st\<in>set xs. positive64 (f st)" by auto
    with nn Cons.prems(2) show ?thesis by (simp add: Cons.IH)
  qed
qed

lemma foldl_dadd_zero:
  "(\<And>st. st \<in> set xs \<Longrightarrow> f st = Fin 0)
     \<Longrightarrow> foldl (\<lambda>acc st. dadd acc (f st)) (Fin 0) xs = Fin 0"
  by (induction xs) (simp_all add: round64_zero)

lemma calcTotalValueWith_ieee:
  "calcTotalValueWith ieee valid =
     foldl (\<lambda>acc st. dadd acc (round64 (num (current_price st) * quantity st))) (Fin 0) valid"
  by (simp add: calcTotalValueWith_def ieee_def)

lemma valid_product_nonneg:
  assumes "st \<in> set (validStocks ss)"
  shows "nonneg64 (round64 (num (current_price st) * quantity st))"
proof -
  from assms have "0 < num (current_price st)" "0 < quantity st"
    by (simp_all add: validStocks_def)
  then have "0 \<le> num (current_price st) * quantity st" by simp
  then show ?thesis by (rule nonneg64_round)
qed

subsection \<open>The figures of a non-empty collection\<close>

text \<open>For a non-empty collection \<open>portfolioDistribution\<close> lists exactly the eligible
  holdings in input order, \<open>totalValue\<close> is the sum of \<open>currentPrice * quantity\<close> over
  exactly those holdings (in the exact reading), and \<open>topStock\<close>, when present, is one of
  them.\<close>

lemma metrics_over_eligible_holdings:
  assumes "ss \<noteq> []"
  shows "\<exists>m. portfolioMetrics (fetchPortfolioMetrics ss s) = Some m
     \<and> map holdingOf (portfolioDistribution m) = filter eligible ss
     \<and> totalValue m = (\<Sum>h\<leftarrow>filter eligible ss. the (current_price h) * quantity h)
     \<and> (\<forall>t. topStock m = Some t \<longrightarrow> t \<in> set (filter eligible ss))"
proof -
  let ?v = "validStocks ss"
  let ?m = "\<lparr>totalValue = calcTotalValue ?v, topStock = calcTopStock ?v,
             portfolioDistribution = calcDistribution (calcTotalValue ?v) ?v\<rparr>"
  have v: "?v = filter eligible ss" by (rule validStocks_eligible)
  have 1: "portfolioMetrics (fetchPortfolioMetrics ss s) = Some ?m"
    by (rule metrics_nonempty[OF assms])
  have 2: "map holdingOf (portfolioDistribution ?m) = filter eligible ss"
    by (simp add: holdingOf_distribution v)
  have 3: "totalValue ?m = (\<Sum>h\<leftarrow>filter eligible ss. the (current_price h) * quantity h)"
    by (simp add: calcTotalValue_sum v sum_worth_eligible)
  have 4: "\<forall>t. topStock ?m = Some t \<longrightarrow> t \<in> set (filter eligible ss)"
  proof (intro allI impI)
    fix t
    assume "topStock ?m = Some t"
    then have "calcTopStock ?v = Some t" by simp
    from calcTopStock_member[OF this] show "t \<in> set (filter eligible ss)"
      by (simp only: v)
  qed
  from 1 2 3 4 show ?thesis by blast
qed

text \<open>The first scenario of the specification with an unpriced holding in between: the
  total is 50 and the distribution lists A and B.\<close>

lemma metrics_over_eligible_holdings_example:
  "[stockA, stockC, stockB] \<noteq> []
   \<and> (\<exists>m. portfolioMetrics (fetchPortfolioMetrics [stockA, stockC, stockB] initialState) = Some m
        \<and> map holdingOf (portfolioDistribution m) = [stockA, stockB]
        \<and> totalValue m = 50)"
proof -
  have ne: "[stockA, stockC, stockB] \<noteq> []" by simp
  have f: "filter eligible [stockA, stockC, stockB] = [stockA, stockB]"
    by (simp add: eligible_def stockA_def stockB_def stockC_def)
  have v: "(\<Sum>h\<leftarrow>[stockA, stockB]. the (current_price h) * quantity h) = 50"
    by (simp add: stockA_def stockB_def)
  from metrics_over_eligible_holdings[OF ne, of initialState] obtain m where
    m: "portfolioMetrics (fetchPortfolioMetrics [stockA, stockC, stockB] initialState) = Some m
        \<and> map holdingOf (portfolioDistribution m) = filter eligible [stockA, stockC, stockB]
        \<and> totalValue m = (\<Sum>h\<leftarrow>filter eligible [stockA, stockC, stockB].
                             the (current_price h) * quantity h)
        \<and> (\<forall>t. topStock m = Some t \<longrightarrow> t \<in> set (filter eligible [stockA, stockC, stockB]))" ..
  have "portfolioMetrics (fetchPortfolioMetrics [stockA, stockC, stockB] initialState) = Some m
        \<and> map holdingOf (portfolioDistribution m) = [stockA, stockB]
        \<and> totalValue m = 50"
    using m unfolding f v by (elim conjE, intro conjI)
  then have "\<exists>m. portfolioMetrics (fetchPortfolioMetrics [stockA, stockC, stockB] initialState) = Some m
        \<and> map holdingOf (portfolioDistribution m) = [stockA, stockB]
        \<and> totalValue m = 50" by (rule exI)
  with ne show ?thesis by (rule conjI)
qed

section \<open>The claims\<close>

subsection \<open>C1: an update recomputes the metrics from the collection before the update\<close>

text \<open>
  C1 says that after a successful update the stored metrics are those of the collection
  with the returned record in place. \<open>handleSaveEdit\<close> replaces the record in \<open>stocks\<close>
  but calls \<open>fetchPortfolioMetrics(stocks)\<close> with the list of the render the handler
  was created in, that is the list before the replacement (lemma
  \<open>handleSaveEdit_metrics_snapshot\<close>). With \<open>stockA\<close> edited from quantity 2 to 3 the
  collection becomes \<open>[stockA3]\<close>, the stored total stays 20, and the total of the new
  collection is 30.
\<close>

theorem handleSaveEdit_metrics_from_old_collection:
  "stocks (snd (handleSaveEdit integerLiteral (\<lambda>r. Some stockA3) editing)) = [stockA3]
   \<and> map_option totalValue
        (portfolioMetrics (snd (handleSaveEdit integerLiteral (\<lambda>r. Some stockA3) editing)))
       = Some 20
   \<and> map_option totalValue (portfolioMetrics (fetchPortfolioMetrics [stockA3] editing)) = Some 30"
proof -
  have 1: "stocks (fetchPortfolioMetrics [stockA] (loaded\<lparr>stocks := [stockA3]\<rparr>)) = [stockA3]"
    by (simp add: fetchPortfolioMetrics_def Let_def)
  have 2: "map_option totalValue
        (portfolioMetrics (fetchPortfolioMetrics [stockA] (loaded\<lparr>stocks := [stockA3]\<rparr>))) = Some 20"
    by (simp add: metrics_nonempty validStocks_def calcTotalValue_fold num_def stockA_def)
  have 3: "map_option totalValue (portfolioMetrics (fetchPortfolioMetrics [stockA3] editing)) = Some 30"
    by (simp add: metrics_nonempty validStocks_def calcTotalValue_fold num_def stockA3_def stockA_def)
  from 1 2 3 show ?thesis by (simp only: editing_save snd_conv)
qed

subsection \<open>C2: the empty collection\<close>

text \<open>
  C2 says that the metrics of the empty collection are the value with total 0, no top
  holding and an empty distribution. \<open>fetchPortfolioMetrics\<close> stores \<open>null\<close> for the empty
  list instead, and the component's own rendering then throws, both after loading an
  empty portfolio and after deleting the last holding. For a non-empty collection with
  no eligible holding (the unpriced \<open>stockC\<close>) the code does store the canonical
  empty value and the page shows "No stocks in portfolio".
\<close>

theorem empty_collection_null_breaks_render:
  "portfolioMetrics (fetchStocks (Array []) initialState) = None
   \<and> render (\<lambda>k. 1 / 2) (fetchStocks (Array []) initialState) = Inl TypeError
   \<and> stocks (snd (handleDeleteStock (\<lambda>r. Some stockA) 1 loaded)) = []
   \<and> portfolioMetrics (snd (handleDeleteStock (\<lambda>r. Some stockA) 1 loaded)) = None
   \<and> render (\<lambda>k. 1 / 2) (snd (handleDeleteStock (\<lambda>r. Some stockA) 1 loaded)) = Inl TypeError
   \<and> portfolioMetrics (fetchStocks (Array [stockC]) initialState)
       = Some \<lparr>totalValue = 0, topStock = None, portfolioDistribution = []\<rparr>
   \<and> render (\<lambda>k. 1 / 2) (fetchStocks (Array [stockC]) initialState)
       = Inr (Dashboard \<lparr>totalShown = 0, topShown = None,
                          distributionShown = NoStocksInPortfolio\<rparr>)"
proof -
  have e: "fetchStocks (Array []) initialState
      = initialState\<lparr>loading := False, portfolioMetrics := None, isMetricsLoading := False\<rparr>"
    by (simp add: fetchStocks_def fetchPortfolioMetrics_def initialState_def)
  have d: "snd (handleDeleteStock (\<lambda>r. Some stockA) 1 loaded)
      = loaded\<lparr>stocks := [], portfolioMetrics := None\<rparr>"
    by (simp add: handleDeleteStock_def fetchPortfolioMetrics_def loaded_eq stockA_def)
  have c: "fetchStocks (Array [stockC]) initialState
      = initialState\<lparr>stocks := [stockC], loading := False, isMetricsLoading := False\<rparr>"
    by (simp add: fetchStocks_def fetchPortfolioMetrics_def initialState_def validStocks_def
        calcTotalValue_fold calcTopStock_def calcDistribution_map num_def stockC_def)
  have 1: "portfolioMetrics (fetchStocks (Array []) initialState) = None"
    by (simp add: e)
  have 2: "render (\<lambda>k. 1 / 2) (fetchStocks (Array []) initialState) = Inl TypeError"
    by (simp add: e render_def)
  have 3: "stocks (snd (handleDeleteStock (\<lambda>r. Some stockA) 1 loaded)) = []"
    by (simp only: d) simp
  have 4: "portfolioMetrics (snd (handleDeleteStock (\<lambda>r. Some stockA) 1 loaded)) = None"
    by (simp only: d) simp
  have 5: "render (\<lambda>k. 1 / 2) (snd (handleDeleteStock (\<lambda>r. Some stockA) 1 loaded)) = Inl TypeError"
    by (simp only: d) (simp add: render_def loaded_eq)
  have 6: "portfolioMetrics (fetchStocks (Array [stockC]) initialState)
       = Some \<lparr>totalValue = 0, topStock = None, portfolioDistribution = []\<rparr>"
    by (simp add: c) (simp add: initialState_def)
  have 7: "render (\<lambda>k. 1 / 2) (fetchStocks (Array [stockC]) initialState)
       = Inr (Dashboard \<lparr>totalShown = 0, topShown = None,
                          distributionShown = NoStocksInPortfolio\<rparr>)"
    by (simp add: c render_def) (simp add: initialState_def)
  from 1 2 3 4 5 6 7 show ?thesis by (intro conjI)
qed

subsection \<open>C3: the figures are computed over the eligible holdings only\<close>

text \<open>
  C3 is stated for every collection. For a non-empty one the code does what it says
  (lemma \<open>metrics_over_eligible_holdings\<close>): a holding whose price is unset or not
  positive, or whose quantity is not positive, enters none of the three figures.
\<close>

text \<open>
  For the empty collection the claim asks for the total 0 (the sum over no holding) and
  the empty distribution; the code stores \<open>null\<close>, so there is neither a total nor a
  distribution. This is the defect of C2.
\<close>

theorem empty_collection_no_total_no_distribution:
  "filter eligible [] = []
   \<and> portfolioMetrics (fetchPortfolioMetrics [] initialState) = None
   \<and> map_option totalValue (portfolioMetrics (fetchPortfolioMetrics [] initialState))
       \<noteq> Some (\<Sum>h\<leftarrow>filter eligible []. the (current_price h) * quantity h)
   \<and> map_option (\<lambda>m. map holdingOf (portfolioDistribution m))
        (portfolioMetrics (fetchPortfolioMetrics [] initialState))
       \<noteq> Some (filter eligible [])"
  by (simp add: metrics_empty)

subsection \<open>C4: the top holding\<close>

text \<open>
  C4. When at least one holding is eligible, \<open>topStock\<close> is an eligible holding whose
  current price is at least that of every eligible holding and strictly greater than that
  of every eligible holding before it in input order: the greatest price, and among
  equals the first.
\<close>

theorem topStock_first_greatest_price:
  assumes "filter eligible ss \<noteq> []"
  shows "\<exists>m t ys zs. portfolioMetrics (fetchPortfolioMetrics ss s) = Some m
     \<and> topStock m = Some t \<and> filter eligible ss = ys @ t # zs
     \<and> (\<forall>y\<in>set ys. the (current_price y) < the (current_price t))
     \<and> (\<forall>z\<in>set zs. the (current_price z) \<le> the (current_price t))"
proof -
  from assms have ne: "ss \<noteq> []" by auto
  from pickTop_fold[OF assms] obtain t ys zs where
    t: "foldl pickTop None (filter eligible ss) = Some t" "filter eligible ss = ys @ t # zs"
       "\<forall>y\<in>set ys. num (current_price y) < num (current_price t)"
       "\<forall>z\<in>set zs. num (current_price z) \<le> num (current_price t)" by blast
  have el: "\<forall>h\<in>set (ys @ t # zs). eligible h"
  proof -
    have "\<forall>h\<in>set (filter eligible ss). eligible h" by simp
    then show ?thesis unfolding t(2) .
  qed
  have "\<forall>y\<in>set ys. the (current_price y) < the (current_price t)"
    using t(3) el by (simp add: num_eligible)
  moreover have "\<forall>z\<in>set zs. the (current_price z) \<le> the (current_price t)"
    using t(4) el by (simp add: num_eligible)
  moreover have "topStock \<lparr>totalValue = calcTotalValue (validStocks ss),
      topStock = calcTopStock (validStocks ss),
      portfolioDistribution =
        calcDistribution (calcTotalValue (validStocks ss)) (validStocks ss)\<rparr> = Some t"
    using t(1) by (simp add: calcTopStock_def validStocks_eligible)
  ultimately show ?thesis
    using t(2) metrics_nonempty[OF ne, of s] by blast
qed

text \<open>\<open>stockB\<close> and \<open>stockD\<close> share the greatest price; \<open>stockB\<close> comes first and is the
  top holding.\<close>

theorem topStock_first_greatest_price_witness:
  "filter eligible [stockA, stockB, stockD] \<noteq> []
   \<and> (\<exists>m t ys zs.
         portfolioMetrics (fetchPortfolioMetrics [stockA, stockB, stockD] initialState) = Some m
         \<and> topStock m = Some t \<and> [stockA, stockB, stockD] = ys @ t # zs
         \<and> (\<forall>y\<in>set ys. the (current_price y) < the (current_price t))
         \<and> (\<forall>z\<in>set zs. the (current_price z) \<le> the (current_price t)))
   \<and> map_option topStock (portfolioMetrics (fetchPortfolioMetrics [stockA, stockB, stockD] initialState))
       = Some (Some stockB)"
proof -
  have f: "filter eligible [stockA, stockB, stockD] = [stockA, stockB, stockD]"
    by (simp add: eligible_def stockA_def stockB_def stockD_def)
  have ne: "filter eligible [stockA, stockB, stockD] \<noteq> []"
    unfolding f by simp
  have v: "validStocks [stockA, stockB, stockD] = [stockA, stockB, stockD]"
    by (simp only: validStocks_eligible f)
  have "calcTopStock [stockA, stockB, stockD] = Some stockB"
    by (simp add: calcTopStock_def pickTop_def num_def stockA_def stockB_def stockD_def)
  then have top: "map_option topStock
      (portfolioMetrics (fetchPortfolioMetrics [stockA, stockB, stockD] initialState))
       = Some (Some stockB)"
    by (simp add: metrics_nonempty v)
  from topStock_first_greatest_price[OF ne, of initialState] ne top show ?thesis
    unfolding f by (intro conjI)
qed

subsection \<open>C5: the percentages add up to 100\<close>



subsection \<open>C6: the divisor of the percentages\<close>

text \<open>
  C6 as stated fails in the arithmetic the code runs. \<open>fetchPortfolioMetrics\<close> never tests
  \<open>totalValue\<close>; it guards the division only through \<open>stocks.length > 0\<close> and the filter
  on price and quantity. The holding \<open>tiny\<close> has the double \<open>2^-600\<close> as price and as
  quantity: it passes the filter, its product underflows to 0, the total is 0, and its
  percentage is \<open>0 / 0 * 100\<close>, that is \<open>NaN\<close>.
\<close>

theorem underflow_total_zero:
  "round64 (quantity tiny) = Fin (quantity tiny)
   \<and> validStocks [tiny] = [tiny]
   \<and> calcTotalValueWith ieee (validStocks [tiny]) = Fin 0
   \<and> map (percentageWith ieee (calcTotalValueWith ieee (validStocks [tiny]))) (validStocks [tiny])
       = [NaN]"
proof -
  have r: "round64 (quantity tiny) = Fin (quantity tiny)"
    by (rule round64_exact[where e = "- 600" and n = "2 ^ 52"]) (simp_all add: tiny_def pow2_def)
  have v: "validStocks [tiny] = [tiny]"
    by (simp add: validStocks_def tiny_def num_def)
  have u: "round64 (num (current_price tiny) * quantity tiny) = Fin 0"
    by (rule round64_underflow) (simp_all add: tiny_def num_def pow2_def)
  have t: "calcTotalValueWith ieee [tiny] = Fin 0"
    by (simp add: calcTotalValueWith_ieee u round64_zero)
  have p: "percentageWith ieee (Fin 0) tiny = NaN"
    by (simp add: percentageWith_def ieee_def u)
  from r v t p show ?thesis by simp
qed

text \<open>
  C6, amended. Whenever a percentage is computed, \<open>totalValue\<close> is not \<open>NaN\<close>, and it is
  zero exactly when the product \<open>current_price * quantity\<close> of every valid holding
  underflows to zero in double arithmetic. So the divisor is non-zero as soon as the
  product of one valid holding does not underflow.
\<close>

theorem total_zero_iff_underflow:
  "(calcTotalValueWith ieee (validStocks ss) = Fin 0)
     = (\<forall>st\<in>set (validStocks ss). round64 (num (current_price st) * quantity st) = Fin 0)
   \<and> calcTotalValueWith ieee (validStocks ss) \<noteq> NaN"
proof -
  let ?v = "validStocks ss"
  let ?f = "\<lambda>st. round64 (num (current_price st) * quantity st)"
  have z: "nonneg64 (Fin 0)" by (simp add: nonneg64_def)
  have nn: "\<And>st. st \<in> set ?v \<Longrightarrow> nonneg64 (?f st)" by (rule valid_product_nonneg)
  have total: "nonneg64 (calcTotalValueWith ieee ?v)"
    unfolding calcTotalValueWith_ieee using z nn by (rule foldl_dadd_nonneg)
  have "calcTotalValueWith ieee ?v = Fin 0" if "\<forall>st\<in>set ?v. ?f st = Fin 0"
    unfolding calcTotalValueWith_ieee using that by (intro foldl_dadd_zero) simp
  moreover have "\<forall>st\<in>set ?v. ?f st = Fin 0" if t: "calcTotalValueWith ieee ?v = Fin 0"
  proof (rule ccontr)
    assume "\<not> (\<forall>st\<in>set ?v. ?f st = Fin 0)"
    then obtain st where st: "st \<in> set ?v" "?f st \<noteq> Fin 0" by auto
    from nn[OF st(1)] st(2) have "positive64 (?f st)" by (simp add: nonneg64_def)
    with st(1) have "positive64 (Fin 0) \<or> (\<exists>st\<in>set ?v. positive64 (?f st))" by auto
    with z nn have "positive64 (calcTotalValueWith ieee ?v)"
      unfolding calcTotalValueWith_ieee by (rule foldl_dadd_positive)
    with t show False by (simp add: positive64_not_zero)
  qed
  ultimately have "(calcTotalValueWith ieee ?v = Fin 0) = (\<forall>st\<in>set ?v. ?f st = Fin 0)"
    by (rule iffI[rotated])
  then show ?thesis using nonneg64_simps(1)[OF total] by (rule conjI)
qed

text \<open>With \<open>stockA\<close> and the unpriced \<open>stockC\<close> the valid holding is \<open>stockA\<close>; its product
  is the double 20, so the total is not zero.\<close>

theorem total_zero_iff_underflow_witness:
  "validStocks [stockA, stockC] = [stockA]
   \<and> round64 (num (current_price stockA) * quantity stockA) = Fin 20
   \<and> calcTotalValueWith ieee (validStocks [stockA, stockC]) \<noteq> Fin 0
   \<and> calcTotalValueWith ieee (validStocks [stockA, stockC]) \<noteq> NaN"
proof -
  have v: "validStocks [stockA, stockC] = [stockA]"
    by (simp add: validStocks_def stockA_def stockC_def num_def)
  have "round64 20 = Fin 20"
    by (rule round64_exact[where e = 4 and n = "5 * 2 ^ 50"]) (simp_all add: pow2_def)
  then have r: "round64 (num (current_price stockA) * quantity stockA) = Fin 20"
    by (simp add: stockA_def num_def)
  then have "\<not> (\<forall>st\<in>set (validStocks [stockA, stockC]).
                 round64 (num (current_price st) * quantity st) = Fin 0)"
    unfolding v by simp
  with total_zero_iff_underflow[of "[stockA, stockC]"]
  have "calcTotalValueWith ieee (validStocks [stockA, stockC]) \<noteq> Fin 0
        \<and> calcTotalValueWith ieee (validStocks [stockA, stockC]) \<noteq> NaN" by simp
  with v r show ?thesis by (intro conjI) simp_all
qed

subsection \<open>C7: validation of the add form\<close>

text \<open>
  C7. When one of the four fields of the add form is empty, or the quantity or the buy
  price converts to a number that is not positive, \<open>handleAddStock\<close> sends no request,
  sets one of its two validation messages and leaves \<open>stocks\<close> as it was. This holds for
  every conversion \<open>toNumber\<close> and every remote store.
\<close>

theorem handleAddStock_validation_rejects:
  assumes "form.name (newStock s) = [] \<or> form.ticker (newStock s) = []
           \<or> form.quantity (newStock s) = [] \<or> form.buyPrice (newStock s) = []
           \<or> (\<exists>q. toNumber (form.quantity (newStock s)) = Some q \<and> q \<le> 0)
           \<or> (\<exists>b. toNumber (form.buyPrice (newStock s)) = Some b \<and> b \<le> 0)"
  shows "fst (handleAddStock toNumber remote s) = []
         \<and> stocks (snd (handleAddStock toNumber remote s)) = stocks s
         \<and> (error (snd (handleAddStock toNumber remote s)) = Some ''Please fill in all fields.''
            \<or> error (snd (handleAddStock toNumber remote s))
                = Some ''Quantity and Buy Price must be positive numbers.'')"
proof (cases "form.name (newStock s) = [] \<or> form.ticker (newStock s) = []
           \<or> form.quantity (newStock s) = [] \<or> form.buyPrice (newStock s) = []")
  case True
  then show ?thesis by (simp add: handleAddStock_def)
next
  case False
  with assms have "(\<exists>q. toNumber (form.quantity (newStock s)) = Some q \<and> q \<le> 0)
           \<or> (\<exists>b. toNumber (form.buyPrice (newStock s)) = Some b \<and> b \<le> 0)" by simp
  then have "strLe0 toNumber (form.quantity (newStock s))
             \<or> strLe0 toNumber (form.buyPrice (newStock s))"
    by (auto simp: strLe0_def)
  with False show ?thesis by (simp add: handleAddStock_def)
qed

text \<open>Quantity 0 is rejected although the remote store would have accepted the request.\<close>

theorem handleAddStock_validation_rejects_witness:
  "integerLiteral (form.quantity (newStock zeroQuantity)) = Some 0
   \<and> fst (handleAddStock integerLiteral (\<lambda>r. Some stockB) zeroQuantity) = []
   \<and> stocks (snd (handleAddStock integerLiteral (\<lambda>r. Some stockB) zeroQuantity)) = [stockA]
   \<and> error (snd (handleAddStock integerLiteral (\<lambda>r. Some stockB) zeroQuantity))
       = Some ''Quantity and Buy Price must be positive numbers.''"
proof -
  have q: "integerLiteral (form.quantity (newStock zeroQuantity)) = Some 0"
    by (simp add: zeroQuantity_def integerLiteral_def)
  then have "\<exists>q. integerLiteral (form.quantity (newStock zeroQuantity)) = Some q \<and> q \<le> 0"
    by simp
  then have h: "form.name (newStock zeroQuantity) = [] \<or> form.ticker (newStock zeroQuantity) = []
           \<or> form.quantity (newStock zeroQuantity) = [] \<or> form.buyPrice (newStock zeroQuantity) = []
           \<or> (\<exists>q. integerLiteral (form.quantity (newStock zeroQuantity)) = Some q \<and> q \<le> 0)
           \<or> (\<exists>b. integerLiteral (form.buyPrice (newStock zeroQuantity)) = Some b \<and> b \<le> 0)"
    by (intro disjI2 disjI1)
  have st: "stocks zeroQuantity = [stockA]"
    by (simp add: zeroQuantity_def loaded_eq)
  have e: "error (snd (handleAddStock integerLiteral (\<lambda>r. Some stockB) zeroQuantity))
       = Some ''Quantity and Buy Price must be positive numbers.''"
    by (simp add: handleAddStock_def strLe0_def q) (simp add: zeroQuantity_def)
  from handleAddStock_validation_rejects[OF h, of "\<lambda>r. Some stockB"] q st e show ?thesis
    by simp
qed

subsection \<open>C8: a failed remote call leaves the collection\<close>

text \<open>
  C8. When \<open>handleAddStock\<close>, \<open>handleSaveEdit\<close> or \<open>handleDeleteStock\<close> has sent its
  request and the remote store rejects it, \<open>stocks\<close> is what it was before and \<open>error\<close>
  holds the message of that operation.
\<close>

theorem remote_failure_keeps_collection:
  "(fst (handleAddStock toNumber remote s) = [r] \<and> remote r = None \<longrightarrow>
      stocks (snd (handleAddStock toNumber remote s)) = stocks s
      \<and> error (snd (handleAddStock toNumber remote s)) = Some ''Failed to add stock.'')
   \<and> (fst (handleSaveEdit toNumber remote s) = [r'] \<and> remote r' = None \<longrightarrow>
      stocks (snd (handleSaveEdit toNumber remote s)) = stocks s
      \<and> error (snd (handleSaveEdit toNumber remote s)) = Some ''Failed to update stock.'')
   \<and> (remote (DELETE i) = None \<longrightarrow>
      stocks (snd (handleDeleteStock remote i s)) = stocks s
      \<and> error (snd (handleDeleteStock remote i s)) = Some ''Failed to delete stock.'')"
proof (intro conjI impI)
  assume a: "fst (handleAddStock toNumber remote s) = [r] \<and> remote r = None"
  then have e: "snd (handleAddStock toNumber remote s) = s\<lparr>error := Some ''Failed to add stock.''\<rparr>"
    by (intro handleAddStock_failure[of toNumber remote s r]) simp_all
  show "stocks (snd (handleAddStock toNumber remote s)) = stocks s"
    by (simp add: e)
  show "error (snd (handleAddStock toNumber remote s)) = Some ''Failed to add stock.''"
    by (simp add: e)
next
  assume a: "fst (handleSaveEdit toNumber remote s) = [r'] \<and> remote r' = None"
  then have e: "snd (handleSaveEdit toNumber remote s) = s\<lparr>error := Some ''Failed to update stock.''\<rparr>"
    by (intro handleSaveEdit_failure[of toNumber remote s r']) simp_all
  show "stocks (snd (handleSaveEdit toNumber remote s)) = stocks s"
    by (simp add: e)
  show "error (snd (handleSaveEdit toNumber remote s)) = Some ''Failed to update stock.''"
    by (simp add: e)
next
  assume a: "remote (DELETE i) = None"
  show "stocks (snd (handleDeleteStock remote i s)) = stocks s"
    by (simp add: handleDeleteStock_failure[of remote i s, OF a])
  show "error (snd (handleDeleteStock remote i s)) = Some ''Failed to delete stock.''"
    by (simp add: handleDeleteStock_failure[of remote i s, OF a])
qed

text \<open>A remote store that rejects everything: the three handlers send their requests
  from a state with a valid add form and a valid edit buffer, and the collection stays
  \<open>[stockA]\<close>.\<close>

theorem remote_failure_keeps_collection_witness:
  "fst (handleAddStock integerLiteral (\<lambda>r. None) filledIn)
     = [POST (form.extend (newStock filledIn) \<lparr>candidate.current_price = None\<rparr>)]
   \<and> stocks (snd (handleAddStock integerLiteral (\<lambda>r. None) filledIn)) = [stockA]
   \<and> error (snd (handleAddStock integerLiteral (\<lambda>r. None) filledIn)) = Some ''Failed to add stock.''
   \<and> fst (handleSaveEdit integerLiteral (\<lambda>r. None) filledIn)
     = [PUT 1 \<lparr>stock_id = 1, name = ''A'', ticker = ''AAA'', quantity = Str ''3'',
               buyPrice = Num 5, current_price = Some 10\<rparr>]
   \<and> stocks (snd (handleSaveEdit integerLiteral (\<lambda>r. None) filledIn)) = [stockA]
   \<and> error (snd (handleSaveEdit integerLiteral (\<lambda>r. None) filledIn))
       = Some ''Failed to update stock.''
   \<and> stocks (snd (handleDeleteStock (\<lambda>r. None) 1 filledIn)) = [stockA]
   \<and> error (snd (handleDeleteStock (\<lambda>r. None) 1 filledIn)) = Some ''Failed to delete stock.''"
proof -
  let ?post = "POST (form.extend (newStock filledIn) \<lparr>candidate.current_price = None\<rparr>)"
  let ?put = "PUT 1 \<lparr>stock_id = 1, name = ''A'', ticker = ''AAA'', quantity = Str ''3'',
               buyPrice = Num 5, current_price = Some 10\<rparr>"
  have st: "stocks filledIn = [stockA]" by (simp add: filledIn_eq loaded_eq)
  have p: "fst (handleAddStock integerLiteral (\<lambda>r. None) filledIn) = [?post]"
    by (simp add: handleAddStock_def Let_def strLe0_def)
       (simp add: filledIn_eq integerLiteral_1 integerLiteral_20)
  have u: "fst (handleSaveEdit integerLiteral (\<lambda>r. None) filledIn) = [?put]"
    by (simp add: handleSaveEdit_def filledIn_eq falsy_def le0_def strLe0_def integerLiteral_3)
  from remote_failure_keeps_collection[of integerLiteral "\<lambda>r. None" filledIn ?post ?put 1]
    p u st show ?thesis by simp
qed

subsection \<open>C9: a successful update or delete leaves the error message\<close>

text \<open>
  C9 says that every successful operation clears the error shown before. Only
  \<open>handleAddStock\<close> calls \<open>setError(null)\<close>; \<open>handleDeleteStock\<close> and \<open>handleSaveEdit\<close> do
  not. After a rejected delete the message is shown; the delete is repeated and succeeds
  (the collection becomes empty) and the message is still there. The same happens for an
  update repeated after a rejected one.
\<close>

theorem success_keeps_error_message:
  "error deleteFailed = Some ''Failed to delete stock.''
   \<and> fst (handleDeleteStock (\<lambda>r. Some stockA) 1 deleteFailed) = [DELETE 1]
   \<and> stocks (snd (handleDeleteStock (\<lambda>r. Some stockA) 1 deleteFailed)) = []
   \<and> error (snd (handleDeleteStock (\<lambda>r. Some stockA) 1 deleteFailed))
       = Some ''Failed to delete stock.''
   \<and> error updateFailed = Some ''Failed to update stock.''
   \<and> stocks (snd (handleSaveEdit integerLiteral (\<lambda>r. Some stockA3) updateFailed)) = [stockA3]
   \<and> error (snd (handleSaveEdit integerLiteral (\<lambda>r. Some stockA3) updateFailed))
       = Some ''Failed to update stock.''"
proof -
  have 1: "error deleteFailed = Some ''Failed to delete stock.''"
    by (simp add: deleteFailed_eq)
  have 2: "fst (handleDeleteStock (\<lambda>r. Some stockA) 1 deleteFailed) = [DELETE 1]"
    by (simp add: handleDeleteStock_def)
  have 3: "stocks (snd (handleDeleteStock (\<lambda>r. Some stockA) 1 deleteFailed)) = []"
    by (simp add: handleDeleteStock_def fetchPortfolioMetrics_stocks deleteFailed_eq loaded_eq
        stockA_def)
  have 4: "error (snd (handleDeleteStock (\<lambda>r. Some stockA) 1 deleteFailed))
       = Some ''Failed to delete stock.''"
    by (simp add: handleDeleteStock_def fetchPortfolioMetrics_error deleteFailed_eq)
  have 5: "error updateFailed = Some ''Failed to update stock.''"
    by (simp add: updateFailed_eq)
  have 6: "stocks (snd (handleSaveEdit integerLiteral (\<lambda>r. Some stockA3) updateFailed)) = [stockA3]"
    by (simp add: handleSaveEdit_def updateFailed_eq editing_eq loaded_eq falsy_def le0_def
        strLe0_def integerLiteral_3 fetchPortfolioMetrics_stocks stockA_def)
  have 7: "error (snd (handleSaveEdit integerLiteral (\<lambda>r. Some stockA3) updateFailed))
       = Some ''Failed to update stock.''"
    by (simp add: handleSaveEdit_def updateFailed_eq editing_eq falsy_def le0_def
        strLe0_def integerLiteral_3 fetchPortfolioMetrics_error)
  from 1 2 3 4 5 6 7 show ?thesis by (intro conjI)
qed

subsection \<open>C10: the chart data\<close>

text \<open>
  C10. For a non-empty distribution \<open>pieChartData\<close> is a chart with one dataset whose
  labels are the names and whose values are the percentages of the entries, in the order
  of the distribution, and with as many colours as there are entries, whatever
  \<open>Math.random\<close> returns. For an empty distribution, and for metrics that are \<open>null\<close>, it
  is the empty object.
\<close>

theorem pieChartData_series:
  "pieChartData random None = EmptyObject
   \<and> (portfolioDistribution m = [] \<longrightarrow> pieChartData random (Some m) = EmptyObject)
   \<and> (portfolioDistribution m \<noteq> [] \<longrightarrow>
        (\<exists>ds. pieChartData random (Some m)
                 = Chart (map holding.name (portfolioDistribution m)) [ds]
              \<and> data ds = map percentage (portfolioDistribution m)
              \<and> length (backgroundColor ds) = length (portfolioDistribution m)
              \<and> length (data ds) = length (portfolioDistribution m)
              \<and> length (map holding.name (portfolioDistribution m))
                  = length (portfolioDistribution m)))"
proof (intro conjI impI)
  show "pieChartData random None = EmptyObject"
    by (simp add: pieChartData_def)
next
  assume "portfolioDistribution m = []"
  then show "pieChartData random (Some m) = EmptyObject"
    by (simp add: pieChartData_def)
next
  assume ne: "portfolioDistribution m \<noteq> []"
  let ?ds = "\<lparr>data = map (\<lambda>stock. percentage stock) (portfolioDistribution m),
              backgroundColor =
                map (\<lambda>k. Hsl (random k * 360) 70 60) [0..<length (portfolioDistribution m)],
              hoverOffset = 4\<rparr>"
  have "pieChartData random (Some m) = Chart (map holding.name (portfolioDistribution m)) [?ds]"
    using ne by (simp add: pieChartData_def)
  moreover have "data ?ds = map percentage (portfolioDistribution m)" by simp
  moreover have "length (backgroundColor ?ds) = length (portfolioDistribution m)" by simp
  moreover have "length (data ?ds) = length (portfolioDistribution m)" by simp
  ultimately show "\<exists>ds. pieChartData random (Some m)
                 = Chart (map holding.name (portfolioDistribution m)) [ds]
              \<and> data ds = map percentage (portfolioDistribution m)
              \<and> length (backgroundColor ds) = length (portfolioDistribution m)
              \<and> length (data ds) = length (portfolioDistribution m)
              \<and> length (map holding.name (portfolioDistribution m))
                  = length (portfolioDistribution m)"
    by (intro exI[of _ ?ds] conjI) simp_all
qed

text \<open>The chart of the scenario with A at 40 percent and B at 60 percent, with a random
  source that always returns one half, and the empty object for the empty distribution.\<close>

theorem pieChartData_series_witness:
  "pieChartData (\<lambda>k. 1 / 2)
      (Some \<lparr>totalValue = 50, topStock = Some stockB,
             portfolioDistribution =
               [holding.extend stockA \<lparr>percentage = 40\<rparr>,
                holding.extend stockB \<lparr>percentage = 60\<rparr>]\<rparr>)
     = Chart [''A'', ''B'']
         [\<lparr>data = [40, 60], backgroundColor = [Hsl 180 70 60, Hsl 180 70 60], hoverOffset = 4\<rparr>]
   \<and> pieChartData (\<lambda>k. 1 / 2)
        (Some \<lparr>totalValue = 0, topStock = None, portfolioDistribution = []\<rparr>) = EmptyObject"
proof -
  let ?m = "\<lparr>totalValue = 50, topStock = Some stockB,
             portfolioDistribution =
               [holding.extend stockA \<lparr>percentage = 40\<rparr>,
                holding.extend stockB \<lparr>percentage = 60\<rparr>]\<rparr>"
  let ?z = "\<lparr>totalValue = 0, topStock = None, portfolioDistribution = []\<rparr>"
  have 1: "pieChartData (\<lambda>k. 1 / 2) (Some ?m) = Chart [''A'', ''B'']
         [\<lparr>data = [40, 60], backgroundColor = [Hsl 180 70 60, Hsl 180 70 60], hoverOffset = 4\<rparr>]"
    by (simp add: pieChartData_def holding.extend_def stockA_def stockB_def upt_rec)
  have 2: "portfolioDistribution ?z = []" by simp
  have "portfolioDistribution ?z = [] \<longrightarrow> pieChartData (\<lambda>k. 1 / 2) (Some ?z) = EmptyObject"
    using pieChartData_series[of "\<lambda>k. 1 / 2" ?z] by (elim conjE)
  with 2 have "pieChartData (\<lambda>k. 1 / 2) (Some ?z) = EmptyObject" by (elim impE)
  with 1 show ?thesis by (rule conjI)
qed

end
